theory Spec2Isabelle
  imports Complex_Main "HOL-Library.Word"
begin

text \<open>
  The task manager keeps a list of tasks in the file \<open>tasks.json\<close> and serves it through
  an Express router: one version of \<open>routes/taskRoutes.js\<close> answers in JSON under
  \<open>/tasks\<close>, the other renders a page. Both read the file with \<open>readTasks\<close>, change the
  array with \<open>push\<close> or \<open>splice\<close>, and write the whole array back. The theory
  models the JavaScript values and library functions the routes use, then the routes
  as functions from the state of the file to an answer and the new state, and proves
  the properties of listing, adding and removing tasks.
\<close>

section \<open>JavaScript values\<close>

text \<open>
  A JavaScript string is a sequence of 16-bit code units. Literals of the source are
  ASCII; \<open>ascii\<close> turns an Isabelle string into its code units.
\<close>

type_synonym js_string = "16 word list"

definition ascii :: "string \<Rightarrow> js_string" where
  "ascii s = map (\<lambda>c. of_nat (of_char c)) s"

text \<open>
  The values the routes handle all come out of \<open>JSON.parse\<close> (the request body through
  \<open>express.json()\<close>, the stored list through \<open>readTasks\<close>), so a value is what
  \<open>JSON.parse\<close> can return. \<open>undefined\<close> (an absent property, a body that was not
  parsed) is \<open>None\<close> of \<open>jsvalue option\<close>. A finite number is the real number it
  denotes, \<open>-0\<close> being \<open>0\<close> (the two are equal under \<open>===\<close> and are both written \<open>0\<close>).
  A literal beyond the range of a double, such as \<open>1e400\<close> or \<open>-1e400\<close>, is read as
  \<open>Infinity\<close> or \<open>-Infinity\<close>: these are \<open>JInfinity\<close> and \<open>JNegInfinity\<close>. No JSON text is
  read as \<open>NaN\<close>. The properties of an object are kept in order, with distinct keys.
\<close>

datatype jsvalue =
    JNull
  | JBool bool
  | JNumber real
  | JInfinity
  | JNegInfinity
  | JString js_string
  | JArray "jsvalue list"
  | JObject "(js_string \<times> jsvalue) list"

datatype exn = ENOENT | SyntaxError | TypeError

text \<open>\<open>ToBoolean\<close>, which \<open>!task\<close> applies: the falsy values are \<open>undefined\<close>, \<open>null\<close>,
  \<open>false\<close>, \<open>0\<close> and the empty string; the infinities and every array and object are
  truthy.\<close>

fun ToBoolean :: "jsvalue option \<Rightarrow> bool" where
  "ToBoolean None = False"
| "ToBoolean (Some JNull) = False"
| "ToBoolean (Some (JBool b)) = b"
| "ToBoolean (Some (JNumber r)) = (r \<noteq> 0)"
| "ToBoolean (Some JInfinity) = True"
| "ToBoolean (Some JNegInfinity) = True"
| "ToBoolean (Some (JString s)) = (s \<noteq> [])"
| "ToBoolean (Some (JArray xs)) = True"
| "ToBoolean (Some (JObject ps)) = True"

text \<open>Reading an own property of an object.\<close>

definition get_prop :: "(js_string \<times> jsvalue) list \<Rightarrow> string \<Rightarrow> jsvalue option" where
  "get_prop ps k = map_of ps (ascii k)"

text \<open>
  \<open>const { task } = req.body\<close>. The body parser leaves \<open>req.body\<close> undefined when it
  parsed no body (Express 5; Express 4 starts from the empty object \<open>{}\<close>), and
  destructuring \<open>undefined\<close> or \<open>null\<close> throws a \<open>TypeError\<close>. An object gives its
  property \<open>task\<close>; an array or a primitive value has none and gives \<open>undefined\<close>.
  A request whose body the parser rejects does not reach the handler.
\<close>

fun task_of_body :: "jsvalue option \<Rightarrow> exn + jsvalue option" where
  "task_of_body None = Inl TypeError"
| "task_of_body (Some JNull) = Inl TypeError"
| "task_of_body (Some (JObject ps)) = Inr (get_prop ps ''task'')"
| "task_of_body (Some v) = Inr None"

subsection \<open>\<open>parseInt(string)\<close> with no radix\<close>

text \<open>
  The white space and line terminators that \<open>parseInt\<close> skips at the start of its
  argument: TAB, LF, VT, FF, CR, SP, NBSP, U+1680, U+2000..U+200A, U+2028, U+2029,
  U+202F, U+205F, U+3000 and U+FEFF.
\<close>

definition is_white_space :: "16 word \<Rightarrow> bool" where
  "is_white_space c \<longleftrightarrow>
     c \<in> {0x09, 0x0A, 0x0B, 0x0C, 0x0D, 0x20, 0xA0, 0x1680, 0x2028, 0x2029, 0x202F,
          0x205F, 0x3000, 0xFEFF} \<or> (0x2000 \<le> c \<and> c \<le> 0x200A)"

text \<open>The value of a code unit as a digit; 36 for a code unit that is no digit in any
  radix.\<close>

definition digit_value :: "16 word \<Rightarrow> nat" where
  "digit_value c =
     (if 0x30 \<le> c \<and> c \<le> 0x39 then unat c - 0x30
      else if 0x61 \<le> c \<and> c \<le> 0x7A then unat c - 0x61 + 10
      else if 0x41 \<le> c \<and> c \<le> 0x5A then unat c - 0x41 + 10
      else 36)"

text \<open>
  \<open>parseInt\<close> follows ECMAScript: skip leading white space, read a sign, read the prefix
  \<open>0x\<close> or \<open>0X\<close> (radix 16, else 10), take the longest run of digits of the radix, and
  give \<open>NaN\<close> (here \<open>None\<close>) when that run is empty. What follows the run is ignored.
  The result is the exact integer; JavaScript rounds it to a double, which changes no
  comparison with an array length (below \<open>2^32\<close>) and no comparison with 0.
\<close>

definition parseInt :: "js_string \<Rightarrow> int option" where
  "parseInt inputString =
     (let S = dropWhile is_white_space inputString;
          sign = (if S \<noteq> [] \<and> hd S = 0x2D then - 1 else 1);
          S = (if S \<noteq> [] \<and> (hd S = 0x2B \<or> hd S = 0x2D) then tl S else S);
          hex = (2 \<le> length S \<and> (take 2 S = [0x30, 0x78] \<or> take 2 S = [0x30, 0x58]));
          R = (if hex then 16 else 10);
          S = (if hex then drop 2 S else S);
          Z = takeWhile (\<lambda>c. digit_value c < R) S
      in if Z = [] then None
         else Some (sign * int (foldl (\<lambda>n c. n * R + digit_value c) 0 Z)))"

subsection \<open>Array methods\<close>

text \<open>\<open>tasks.push(task)\<close>: appends when \<open>tasks\<close> is an array. On any other JSON value
  \<open>tasks.push\<close> is not a function (or \<open>tasks\<close> is \<open>null\<close>), and the call throws
  a \<open>TypeError\<close>. The result is the array after the call.\<close>

fun push :: "jsvalue \<Rightarrow> jsvalue \<Rightarrow> exn + jsvalue" where
  "push (JArray xs) x = Inr (JArray (xs @ [x]))"
| "push _ x = Inl TypeError"

text \<open>\<open>tasks.splice(start, deleteCount)\<close>: the removed elements as a new array, and the
  array after the call. A negative \<open>start\<close> counts from the end; both arguments are
  clamped to the array.\<close>

fun splice :: "jsvalue \<Rightarrow> int \<Rightarrow> nat \<Rightarrow> exn + (jsvalue \<times> jsvalue)" where
  "splice (JArray xs) start deleteCount =
     (let len = int (length xs);
          actualStart = nat (if start < 0 then max (len + start) 0 else min start len)
      in Inr (JArray (take deleteCount (drop actualStart xs)),
              JArray (take actualStart xs @ drop (actualStart + deleteCount) xs)))"
| "splice _ start deleteCount = Inl TypeError"

subsection \<open>\<open>JSON.stringify\<close>\<close>

text \<open>
  \<open>JSON.stringify\<close> has no notation for the infinities and writes \<open>null\<close> in their
  place, at any depth; every other value is written so that \<open>JSON.parse\<close> reads it
  back. \<open>written v\<close> is the value that the text \<open>JSON.stringify(v)\<close> denotes: what a
  client reads in a JSON answer, and what the file holds after a write.
\<close>

fun written :: "jsvalue \<Rightarrow> jsvalue" where
  "written JInfinity = JNull"
| "written JNegInfinity = JNull"
| "written (JArray xs) = JArray (map written xs)"
| "written (JObject ps) = JObject (map (\<lambda>(k, v). (k, written v)) ps)"
| "written v = v"

text \<open>The values in which no infinity occurs.\<close>

fun finite_value :: "jsvalue \<Rightarrow> bool" where
  "finite_value JInfinity = False"
| "finite_value JNegInfinity = False"
| "finite_value (JArray xs) = list_all finite_value xs"
| "finite_value (JObject ps) = list_all (\<lambda>(k, v). finite_value v) ps"
| "finite_value v = True"

section \<open>The file \<open>tasks.json\<close>\<close>

text \<open>
  The text of the file is seen only through \<open>JSON.parse\<close>, and written only as
  \<open>JSON.stringify(tasks, null, 2)\<close>. A text is therefore modelled by what \<open>JSON.parse\<close>
  makes of it: \<open>Unparsable s\<close> is a text \<open>s\<close> outside the JSON grammar (the model never
  looks into \<open>s\<close>), \<open>Serialised v\<close> a text that \<open>JSON.parse\<close> maps to the value \<open>v\<close>. The
  text \<open>JSON.stringify(v, null, 2)\<close> is one that \<open>JSON.parse\<close> maps to \<open>written v\<close>. The
  file system is the file at \<open>filePath\<close>, \<open>None\<close> when there is no such file. Writing is
  taken to succeed.
\<close>

datatype content = Unparsable js_string | Serialised jsvalue

type_synonym filesystem = "content option"

definition readFileSync :: "filesystem \<Rightarrow> exn + content" where
  "readFileSync fs = (case fs of None \<Rightarrow> Inl ENOENT | Some data \<Rightarrow> Inr data)"

definition writeFileSync :: "content \<Rightarrow> filesystem \<Rightarrow> filesystem" where
  "writeFileSync data fs = Some data"

fun JSON_parse :: "content \<Rightarrow> exn + jsvalue" where
  "JSON_parse (Unparsable s) = Inl SyntaxError"
| "JSON_parse (Serialised v) = Inr v"

definition JSON_stringify :: "jsvalue \<Rightarrow> content" where
  "JSON_stringify v = Serialised (written v)"

text \<open>\<open>readTasks\<close>, the same in both routers: any exception of the read or of the parse
  is caught and the empty array returned.\<close>

definition readTasks :: "filesystem \<Rightarrow> jsvalue" where
  "readTasks fs =
     (case readFileSync fs of
        Inl error \<Rightarrow> JArray []
      | Inr data \<Rightarrow> (case JSON_parse data of Inl error \<Rightarrow> JArray [] | Inr v \<Rightarrow> v))"

definition writeTasks :: "jsvalue \<Rightarrow> filesystem \<Rightarrow> filesystem" where
  "writeTasks tasks fs = writeFileSync (JSON_stringify tasks) fs"

section \<open>The routes\<close>

text \<open>
  What a handler does with \<open>res\<close>, or the exception it lets escape (Express answers that
  with status 500). \<open>Json_response n v\<close> is an answer of status \<open>n\<close> whose body is a JSON
  text denoting \<open>v\<close>, \<open>Text_response\<close> is \<open>res.status(n).send(s)\<close>, with status 200 when
  the handler sets none. \<open>Invalid_or_TypeError\<close> stands for the one case left open, see
  \<open>ge_length\<close>.
\<close>

datatype response =
    Json_response nat jsvalue
  | Text_response nat js_string
  | Redirect js_string
  | Render js_string "(js_string \<times> jsvalue) list"
  | Uncaught exn
  | Invalid_or_TypeError

text \<open>\<open>res.status(n).json(v)\<close> sends the text \<open>JSON.stringify(v)\<close>.\<close>

definition res_json :: "nat \<Rightarrow> jsvalue \<Rightarrow> response" where
  "res_json status v = Json_response status (written v)"

text \<open>
  The last disjunct of the guard, \<open>index >= tasks.length\<close>, for an \<open>index\<close> that is a
  number and not negative. An array and a string have a length. Reading \<open>length\<close> of
  \<open>null\<close> throws. A boolean, a number (finite or not), and an object with no property
  \<open>length\<close> give \<open>undefined\<close>, and the comparison with it is false. For an object with a property
  \<open>length\<close> the comparison converts that property to a floating point number; this is
  \<open>Converts\<close>, left open: whichever way it goes, the handler answers 400 or the
  following \<open>splice\<close> throws, and nothing is written.
\<close>

datatype guard = Holds | Fails | Throws exn | Converts

fun ge_length :: "int \<Rightarrow> jsvalue \<Rightarrow> guard" where
  "ge_length index (JArray xs) = (if index \<ge> int (length xs) then Holds else Fails)"
| "ge_length index (JString s) = (if index \<ge> int (length s) then Holds else Fails)"
| "ge_length index JNull = Throws TypeError"
| "ge_length index (JBool b) = Fails"
| "ge_length index (JNumber r) = Fails"
| "ge_length index JInfinity = Fails"
| "ge_length index JNegInfinity = Fails"
| "ge_length index (JObject ps) =
     (case get_prop ps ''length'' of None \<Rightarrow> Fails | Some v \<Rightarrow> Converts)"

subsection \<open>The JSON router (\<open>/tasks\<close>)\<close>

text \<open>\<open>router.get("/")\<close>, \<open>router.post("/")\<close> with \<open>req.body\<close>, and
  \<open>router.delete("/:index")\<close> with \<open>req.params.index\<close>. Each takes the state of the file
  and returns its answer and the state it leaves.\<close>

definition api_get :: "filesystem \<Rightarrow> response \<times> filesystem" where
  "api_get fs = (let tasks = readTasks fs in (res_json 200 tasks, fs))"

definition api_post :: "jsvalue option \<Rightarrow> filesystem \<Rightarrow> response \<times> filesystem" where
  "api_post body fs =
     (case task_of_body body of
        Inl e \<Rightarrow> (Uncaught e, fs)
      | Inr None \<Rightarrow>
          (res_json 400 (JObject [(ascii ''error'', JString (ascii ''Task is required''))]), fs)
      | Inr (Some task) \<Rightarrow>
          if \<not> ToBoolean (Some task)
          then (res_json 400 (JObject [(ascii ''error'', JString (ascii ''Task is required''))]), fs)
          else (case push (readTasks fs) task of
                  Inl e \<Rightarrow> (Uncaught e, fs)
                | Inr tasks \<Rightarrow>
                    (res_json 200
                       (JObject [(ascii ''message'', JString (ascii ''Task added successfully'')),
                                 (ascii ''tasks'', tasks)]),
                     writeTasks tasks fs)))"

definition api_delete :: "js_string \<Rightarrow> filesystem \<Rightarrow> response \<times> filesystem" where
  "api_delete index_param fs =
     (let tasks = readTasks fs in
      case parseInt index_param of
        None \<Rightarrow>
          (res_json 400 (JObject [(ascii ''error'', JString (ascii ''Invalid task index''))]), fs)
      | Some index \<Rightarrow>
          if index < 0
          then (res_json 400 (JObject [(ascii ''error'', JString (ascii ''Invalid task index''))]), fs)
          else (case ge_length index tasks of
                  Holds \<Rightarrow>
                    (res_json 400
                       (JObject [(ascii ''error'', JString (ascii ''Invalid task index''))]), fs)
                | Throws e \<Rightarrow> (Uncaught e, fs)
                | Converts \<Rightarrow> (Invalid_or_TypeError, fs)
                | Fails \<Rightarrow>
                    (case splice tasks index 1 of
                       Inl e \<Rightarrow> (Uncaught e, fs)
                     | Inr (deletedTask, tasks') \<Rightarrow>
                         (res_json 200
                            (JObject [(ascii ''message'', JString (ascii ''Task deleted successfully'')),
                                      (ascii ''deletedTask'', deletedTask),
                                      (ascii ''tasks'', tasks')]),
                          writeTasks tasks' fs))))"

subsection \<open>The page router (\<open>/\<close>, \<open>/add\<close>, \<open>/delete/:index\<close>)\<close>

text \<open>The second router reads its file with the same \<open>readTasks\<close> and writes it with
  \<open>fs.writeFileSync(filePath, JSON.stringify(tasks, null, 2))\<close> in place. Each router has
  its own \<open>filePath\<close>; a run of calls goes through one router. The template that
  \<open>res.render\<close> fills is not part of the model; it is handed the values as they were
  read. The handlers are \<open>router.get("/")\<close>, \<open>router.post("/add")\<close> and
  \<open>router.get("/delete/:index")\<close>.\<close>

definition view_get :: "filesystem \<Rightarrow> response \<times> filesystem" where
  "view_get fs = (let tasks = readTasks fs in (Render (ascii ''index'') [(ascii ''tasks'', tasks)], fs))"

definition view_post :: "jsvalue option \<Rightarrow> filesystem \<Rightarrow> response \<times> filesystem" where
  "view_post body fs =
     (case task_of_body body of
        Inl e \<Rightarrow> (Uncaught e, fs)
      | Inr None \<Rightarrow> (Text_response 400 (ascii ''Task is required''), fs)
      | Inr (Some task) \<Rightarrow>
          if \<not> ToBoolean (Some task)
          then (Text_response 400 (ascii ''Task is required''), fs)
          else (case push (readTasks fs) task of
                  Inl e \<Rightarrow> (Uncaught e, fs)
                | Inr tasks \<Rightarrow> (Redirect (ascii ''/''), writeFileSync (JSON_stringify tasks) fs)))"

definition view_delete :: "js_string \<Rightarrow> filesystem \<Rightarrow> response \<times> filesystem" where
  "view_delete index_param fs =
     (let tasks = readTasks fs in
      case parseInt index_param of
        None \<Rightarrow> (Text_response 400 (ascii ''Invalid task index''), fs)
      | Some index \<Rightarrow>
          if index < 0
          then (Text_response 400 (ascii ''Invalid task index''), fs)
          else (case ge_length index tasks of
                  Holds \<Rightarrow> (Text_response 400 (ascii ''Invalid task index''), fs)
                | Throws e \<Rightarrow> (Uncaught e, fs)
                | Converts \<Rightarrow> (Invalid_or_TypeError, fs)
                | Fails \<Rightarrow>
                    (case splice tasks index 1 of
                       Inl e \<Rightarrow> (Uncaught e, fs)
                     | Inr (deletedTask, tasks') \<Rightarrow>
                         (Redirect (ascii ''/''), writeFileSync (JSON_stringify tasks') fs))))"

section \<open>The contract of the task store\<close>

text \<open>
  The three operations of the store are the three routes of either router. Its two
  errors are the two answers with status 400: \<open>ValidationError\<close> is
  \<open>{ error: "Task is required" }\<close> or the text \<open>Task is required\<close>, \<open>IndexError\<close> is
  \<open>{ error: "Invalid task index" }\<close> or the text \<open>Invalid task index\<close>.
\<close>

definition ValidationError :: "response \<Rightarrow> bool" where
  "ValidationError r \<longleftrightarrow>
     r = Json_response 400 (JObject [(ascii ''error'', JString (ascii ''Task is required''))]) \<or>
     r = Text_response 400 (ascii ''Task is required'')"

definition IndexError :: "response \<Rightarrow> bool" where
  "IndexError r \<longleftrightarrow>
     r = Json_response 400 (JObject [(ascii ''error'', JString (ascii ''Invalid task index''))]) \<or>
     r = Text_response 400 (ascii ''Invalid task index'')"

text \<open>A property of the object a JSON answer carries, such as \<open>tasks\<close> or
  \<open>deletedTask\<close>.\<close>

fun body_field :: "string \<Rightarrow> response \<Rightarrow> jsvalue option" where
  "body_field k (Json_response status (JObject ps)) = get_prop ps k"
| "body_field k _ = None"

text \<open>The sequence that \<open>list()\<close> returns: the value a client reads in the answer of
  the JSON router under status 200, or the one the page router hands to the
  template.\<close>

fun listed :: "response \<Rightarrow> jsvalue option" where
  "listed (Json_response status v) = (if status = 200 then Some v else None)"
| "listed (Render view ps) = get_prop ps ''tasks''"
| "listed _ = None"

text \<open>The task values that the specification calls absent or empty: no \<open>task\<close> property,
  \<open>null\<close>, and the empty text.\<close>

definition absent_or_empty :: "jsvalue option \<Rightarrow> bool" where
  "absent_or_empty task \<longleftrightarrow> task = None \<or> task = Some JNull \<or> task = Some (JString [])"



section \<open>Reading and writing\<close>

lemmas eval_defs =
  readTasks_def readFileSync_def writeTasks_def writeFileSync_def JSON_stringify_def
  res_json_def api_get_def api_post_def api_delete_def view_get_def view_post_def
  view_delete_def get_prop_def ascii_def parseInt_def is_white_space_def digit_value_def
  IndexError_def ValidationError_def absent_or_empty_def

lemma readTasks_None: "readTasks None = JArray []"
  by (simp add: readTasks_def readFileSync_def)

lemma readTasks_Unparsable: "readTasks (Some (Unparsable s)) = JArray []"
  by (simp add: readTasks_def readFileSync_def)

lemma readTasks_Serialised: "readTasks (Some (Serialised v)) = v"
  by (simp add: readTasks_def readFileSync_def)

text \<open>What is read back from a serialisation is the value as it was written. Writing
  changes a value once: what was written is written back unchanged.\<close>

lemma JSON_round_trip: "JSON_parse (JSON_stringify v) = Inr (written v)"
  by (simp add: JSON_stringify_def)


lemma readTasks_written: "readTasks (writeTasks tasks fs) = written tasks"
  by (simp add: writeTasks_def writeFileSync_def readTasks_def readFileSync_def JSON_round_trip)

lemma written_array_iff:
  "written v = JArray ys \<longleftrightarrow> (\<exists>xs. v = JArray xs \<and> ys = map written xs)"
  by (cases v) auto

text \<open>A value is written unchanged exactly when no infinity occurs in it.\<close>

lemma written_fixed_iff: "written v = v \<longleftrightarrow> finite_value v"
proof (induction v rule: written.induct)
  case (3 xs)
  have "map written xs = xs \<longleftrightarrow> (\<forall>x\<in>set xs. written x = x)"
    by (induction xs) auto
  with 3 show ?case by (auto simp: list_all_iff)
next
  case (4 ps)
  have "map (\<lambda>(k, v). (k, written v)) ps = ps \<longleftrightarrow> (\<forall>(k, v)\<in>set ps. written v = v)"
    by (induction ps) auto
  with 4 show ?case by (fastforce simp: list_all_iff)
qed simp_all

text \<open>The sequence that \<open>list()\<close> shows is the stored array as it is written.\<close>

lemma listed_api_get: "listed (fst (api_get fs)) = Some (written (readTasks fs))"
  by (simp add: api_get_def res_json_def)

lemma listed_array_iff:
  "listed (fst (api_get fs)) = Some (JArray xs) \<longleftrightarrow>
     (\<exists>raw. readTasks fs = JArray raw \<and> xs = map written raw)"
  by (simp add: listed_api_get written_array_iff)

lemma listed_view_get: "listed (fst (view_get fs)) = Some (readTasks fs)"
  by (simp add: view_get_def get_prop_def)

text \<open>Different ASCII literals are different JavaScript strings.\<close>

lemma ascii_inj: "ascii k = ascii k' \<longleftrightarrow> k = k'"
proof -
  have "inj (\<lambda>c::char. (of_nat (of_char c) :: 16 word))"
  proof (rule injI)
    fix c d :: char
    assume "(of_nat (of_char c) :: 16 word) = of_nat (of_char d)"
    then have "unat (of_nat (of_char c) :: 16 word) = unat (of_nat (of_char d) :: 16 word)"
      by simp
    moreover have "of_char c < (65536::nat)" "of_char d < (65536::nat)"
      using nat_of_char_less_256 [of c] nat_of_char_less_256 [of d] by linarith+
    ultimately have "(of_char c :: nat) = of_char d"
      by (simp add: unat_of_nat)
    then show "c = d" by simp
  qed
  then show ?thesis
    unfolding ascii_def by (auto dest: inj_mapD)
qed

text \<open>The body of a request gives a task, present or not, exactly when it is neither
  \<open>undefined\<close> nor \<open>null\<close>; a present task comes from an object.\<close>

lemma task_of_body_throws: "task_of_body body = Inl e \<longleftrightarrow> e = TypeError \<and> (body = None \<or> body = Some JNull)"
  by (cases body rule: task_of_body.cases) auto

lemma task_of_body_present:
  "task_of_body body = Inr (Some t) \<longleftrightarrow> (\<exists>ps. body = Some (JObject ps) \<and> get_prop ps ''task'' = Some t)"
  by (cases body rule: task_of_body.cases) auto

section \<open>\<open>parseInt\<close> on decimal numerals\<close>






section \<open>The handlers, case by case\<close>

lemma splice_one:
  assumes "0 \<le> i" "i < int (length xs)"
  shows "splice (JArray xs) i 1 =
           Inr (JArray [xs ! nat i], JArray (take (nat i) xs @ drop (Suc (nat i)) xs))"
proof -
  from assms have "nat i < length xs" by linarith
  then have "take 1 (drop (nat i) xs) = [xs ! nat i]"
    by (simp add: take_Suc_conv_app_nth drop_Suc Cons_nth_drop_Suc [symmetric])
  with assms show ?thesis by (simp add: min_def Let_def)
qed

text \<open>In these lemmas \<open>xs\<close> is the sequence as \<open>list()\<close> shows it before the call.\<close>

lemma api_delete_valid:
  assumes "listed (fst (api_get fs)) = Some (JArray xs)"
    and "parseInt s = Some i" "0 \<le> i" "i < int (length xs)"
  shows "api_delete s fs =
      (Json_response 200
         (JObject [(ascii ''message'', JString (ascii ''Task deleted successfully'')),
                   (ascii ''deletedTask'', JArray [xs ! nat i]),
                   (ascii ''tasks'', JArray (take (nat i) xs @ drop (Suc (nat i)) xs))]),
       Some (Serialised (JArray (take (nat i) xs @ drop (Suc (nat i)) xs))))"
proof -
  from assms(1) obtain raw where raw: "readTasks fs = JArray raw" "xs = map written raw"
    by (auto simp: listed_array_iff)
  with assms have i: "0 \<le> i" "i < int (length raw)" by simp_all
  then have n: "nat i < length raw" by linarith
  from raw assms(2) i splice_one [OF i] n show ?thesis
    by (simp add: api_delete_def res_json_def writeTasks_def writeFileSync_def
        JSON_stringify_def take_map drop_map)
qed




lemma api_post_falsy:
  assumes "task_of_body body = Inr task" "\<not> ToBoolean task"
  shows "api_post body fs =
      (Json_response 400 (JObject [(ascii ''error'', JString (ascii ''Task is required''))]), fs)"
  using assms by (auto simp: api_post_def res_json_def split: option.splits)

lemma view_post_falsy:
  assumes "task_of_body body = Inr task" "\<not> ToBoolean task"
  shows "view_post body fs = (Text_response 400 (ascii ''Task is required''), fs)"
  using assms by (auto simp: view_post_def split: option.splits)



text \<open>With no parsed body the destructuring throws before anything is read.\<close>

lemma api_post_throws:
  assumes "task_of_body body = Inl e"
  shows "api_post body fs = (Uncaught e, fs)"
  using assms by (simp add: api_post_def)

lemma view_post_throws:
  assumes "task_of_body body = Inl e"
  shows "view_post body fs = (Uncaught e, fs)"
  using assms by (simp add: view_post_def)

text \<open>A stored value that is no array makes \<open>add\<close> throw, and nothing is written.\<close>

lemma api_post_not_array:
  assumes "\<forall>xs. readTasks fs \<noteq> JArray xs" "task_of_body body = Inr (Some t)" "ToBoolean (Some t)"
  shows "api_post body fs = (Uncaught TypeError, fs)"
  using assms by (cases "readTasks fs") (simp_all add: api_post_def)

lemma falsy_values:
  "\<not> ToBoolean t \<longleftrightarrow>
     t \<in> {None, Some JNull, Some (JBool False), Some (JNumber 0), Some (JString [])}"
  by (cases t rule: ToBoolean.cases) auto

text \<open>Only a successful call writes: every other answer of a handler leaves the file
  as it was.\<close>

lemma api_delete_writes_only_on_success:
  "snd (api_delete s fs) = fs \<or> (\<exists>v. fst (api_delete s fs) = Json_response 200 v)"
  by (auto simp: api_delete_def res_json_def Let_def
      split: option.splits guard.splits sum.splits if_splits prod.splits)

lemma api_post_writes_only_on_success:
  "snd (api_post body fs) = fs \<or> (\<exists>v. fst (api_post body fs) = Json_response 200 v)"
  by (auto simp: api_post_def res_json_def split: option.splits sum.splits)

text \<open>The routes write arrays only: a file that reads as a sequence reads as a sequence
  after any call, so a store that only the routes touch always holds one, and no
  infinity is left in what they write.\<close>

lemma api_post_keeps_array:
  assumes "readTasks fs = JArray xs"
  shows "\<exists>ys. readTasks (snd (api_post body fs)) = JArray ys"
  using assms
  by (auto simp: api_post_def readTasks_written split: sum.splits option.splits)

lemma view_post_keeps_array:
  assumes "readTasks fs = JArray xs"
  shows "\<exists>ys. readTasks (snd (view_post body fs)) = JArray ys"
  using assms
  by (auto simp: view_post_def writeFileSync_def JSON_stringify_def readTasks_Serialised
      split: sum.splits option.splits)

lemma api_delete_keeps_array:
  assumes "readTasks fs = JArray xs"
  shows "\<exists>ys. readTasks (snd (api_delete s fs)) = JArray ys"
  using assms
  by (auto simp: api_delete_def readTasks_written Let_def
      split: option.splits guard.splits sum.splits if_splits)

lemma view_delete_keeps_array:
  assumes "readTasks fs = JArray xs"
  shows "\<exists>ys. readTasks (snd (view_delete s fs)) = JArray ys"
  using assms
  by (auto simp: view_delete_def writeFileSync_def JSON_stringify_def readTasks_Serialised Let_def
      split: option.splits guard.splits sum.splits if_splits)

section \<open>The properties of the specification\<close>

text \<open>In what follows the sequence of the store is the one \<open>list()\<close> shows: a stored
  array without infinities is shown as it is.\<close>

lemma listed_finite_array:
  assumes "readTasks fs = JArray xs" "list_all finite_value xs"
  shows "listed (fst (api_get fs)) = Some (JArray xs)"
proof -
  from assms(2) have "finite_value (JArray xs)" by simp
  then have "written (JArray xs) = JArray xs" by (simp only: written_fixed_iff)
  with assms(1) show ?thesis by (simp add: listed_api_get)
qed

subsection \<open>Removing a task\<close>

text \<open>
  C1. For a listed sequence \<open>xs\<close> and an index parameter that \<open>parseInt\<close> reads as \<open>i\<close>
  with \<open>0 \<le> i < length xs\<close>, the answer of \<open>DELETE /tasks/:index\<close> carries as
  \<open>deletedTask\<close> the array \<open>tasks.splice(index, 1)\<close> returned: the one-element array
  that holds the element previously at position \<open>i\<close>.
\<close>

theorem removeAt_deletedTask:
  assumes "listed (fst (api_get fs)) = Some (JArray xs)"
    and "parseInt s = Some i" "0 \<le> i" "i < int (length xs)"
  shows "body_field ''deletedTask'' (fst (api_delete s fs)) = Some (JArray [xs ! nat i])"
  using api_delete_valid [OF assms] by (simp add: get_prop_def ascii_def)

text \<open>An instance: deleting index 1 of \<open>["a", "b"]\<close> answers \<open>deletedTask: ["b"]\<close>.\<close>

theorem removeAt_deletedTask_witness:
  "listed (fst (api_get (Some (Serialised (JArray [JString (ascii ''a''), JString (ascii ''b'')])))))
     = Some (JArray [JString (ascii ''a''), JString (ascii ''b'')]) \<and>
   parseInt (ascii ''1'') = Some 1 \<and> (0::int) \<le> 1 \<and>
   (1::int) < int (length [JString (ascii ''a''), JString (ascii ''b'')]) \<and>
   body_field ''deletedTask''
     (fst (api_delete (ascii ''1'')
        (Some (Serialised (JArray [JString (ascii ''a''), JString (ascii ''b'')])))))
     = Some (JArray [JString (ascii ''b'')])"
proof -
  let ?xs = "[JString (ascii ''a''), JString (ascii ''b'')]"
  have 1: "listed (fst (api_get (Some (Serialised (JArray ?xs))))) = Some (JArray ?xs)"
    by (simp add: listed_api_get readTasks_Serialised)
  have 2: "parseInt (ascii ''1'') = Some 1"
    by (simp add: parseInt_def ascii_def is_white_space_def digit_value_def)
  have 3: "(0::int) \<le> 1" by simp
  have 4: "(1::int) < int (length ?xs)" by simp
  from removeAt_deletedTask [OF 1 2 3 4] 1 2 show ?thesis by simp
qed

text \<open>The bare element is not what is returned: with \<open>["a"]\<close> stored, \<open>DELETE /tasks/0\<close>
  answers \<open>deletedTask: ["a"]\<close>, which is not the element \<open>"a"\<close> at position 0.\<close>

theorem removeAt_deletedTask_not_element:
  "body_field ''deletedTask''
     (fst (api_delete (ascii ''0'') (Some (Serialised (JArray [JString (ascii ''a'')])))))
   = Some (JArray [JString (ascii ''a'')]) \<and>
   body_field ''deletedTask''
     (fst (api_delete (ascii ''0'') (Some (Serialised (JArray [JString (ascii ''a'')])))))
   \<noteq> Some ([JString (ascii ''a'')] ! 0)"
  by (simp add: eval_defs)






text \<open>
  C7. Whenever a delete route answers \<open>IndexError\<close>, whatever the parameter and
  whatever the file holds, the file is as it was before the call. The same holds in
  the one case where the model leaves open whether the answer is \<open>IndexError\<close> or
  a \<open>TypeError\<close>.
\<close>

theorem removeAt_IndexError_no_write:
  "(IndexError (fst (api_delete s fs)) \<or> fst (api_delete s fs) = Invalid_or_TypeError
      \<longrightarrow> snd (api_delete s fs) = fs) \<and>
   (IndexError (fst (view_delete s fs)) \<or> fst (view_delete s fs) = Invalid_or_TypeError
      \<longrightarrow> snd (view_delete s fs) = fs)"
  by (auto simp: api_delete_def view_delete_def res_json_def IndexError_def Let_def
      split: option.splits guard.splits sum.splits if_splits prod.splits)

text \<open>An instance: index \<open>"5"\<close> with two tasks stored, and index \<open>"x"\<close> with no file.\<close>

theorem removeAt_IndexError_no_write_witness:
  "IndexError (fst (api_delete (ascii ''5'')
      (Some (Serialised (JArray [JString (ascii ''a''), JString (ascii ''b'')]))))) \<and>
   snd (api_delete (ascii ''5'')
      (Some (Serialised (JArray [JString (ascii ''a''), JString (ascii ''b'')]))))
     = Some (Serialised (JArray [JString (ascii ''a''), JString (ascii ''b'')])) \<and>
   IndexError (fst (view_delete (ascii ''x'') None)) \<and>
   snd (view_delete (ascii ''x'') None) = None"
proof -
  let ?fs = "Some (Serialised (JArray [JString (ascii ''a''), JString (ascii ''b'')]))"
  have a: "IndexError (fst (api_delete (ascii ''5'') ?fs))"
    by (simp add: eval_defs)
  have b: "IndexError (fst (view_delete (ascii ''x'') None))"
    by (simp add: eval_defs)
  from removeAt_IndexError_no_write [of "ascii ''5''" ?fs] a
  have "snd (api_delete (ascii ''5'') ?fs) = ?fs" by blast
  moreover from removeAt_IndexError_no_write [of "ascii ''x''" None] b
  have "snd (view_delete (ascii ''x'') None) = None" by blast
  ultimately show ?thesis using a b by simp
qed

subsection \<open>Listing the tasks\<close>

text \<open>
  C2. \<open>list()\<close> returns the empty sequence when there is no file and when the text of
  the file is not JSON. A text that is JSON is returned as \<open>JSON.parse\<close> reads it,
  whether or not it is an array: the page is handed that value, the JSON route
  answers with it as \<open>res.json\<close> writes it, and what it writes is the empty array
  only for the empty array. In every state of the file the JSON route answers with
  status 200 and throws nothing.
\<close>

theorem list_fail_open:
  "(fs = None \<or> fs = Some (Unparsable s) \<longrightarrow>
      listed (fst (api_get fs)) = Some (JArray []) \<and>
      listed (fst (view_get fs)) = Some (JArray [])) \<and>
   (fs = Some (Serialised v) \<longrightarrow>
      listed (fst (api_get fs)) = Some (written v) \<and>
      listed (fst (view_get fs)) = Some v \<and>
      (finite_value v \<longrightarrow> written v = v) \<and>
      (written v = JArray [] \<longrightarrow> v = JArray [])) \<and>
   fst (api_get fs) = Json_response 200 (written (readTasks fs))"
proof -
  have "written v = JArray [] \<longrightarrow> v = JArray []"
    by (simp add: written_array_iff)
  moreover have "finite_value v \<longrightarrow> written v = v"
    by (simp add: written_fixed_iff)
  ultimately show ?thesis
    by (auto simp: listed_api_get listed_view_get api_get_def res_json_def
        readTasks_None readTasks_Unparsable readTasks_Serialised)
qed

text \<open>An instance: no file, a file that is not JSON, and a file holding \<open>["a"]\<close>.\<close>

theorem list_fail_open_witness:
  "listed (fst (api_get None)) = Some (JArray []) \<and>
   listed (fst (view_get None)) = Some (JArray []) \<and>
   listed (fst (api_get (Some (Unparsable (ascii ''[1,''))))) = Some (JArray []) \<and>
   listed (fst (view_get (Some (Unparsable (ascii ''[1,''))))) = Some (JArray []) \<and>
   listed (fst (api_get (Some (Serialised (JArray [JString (ascii ''a'')])))))
     = Some (JArray [JString (ascii ''a'')])"
proof -
  let ?v = "JArray [JString (ascii ''a'')]"
  from list_fail_open [of None "[]" JNull]
  have 1: "listed (fst (api_get None)) = Some (JArray []) \<and>
           listed (fst (view_get None)) = Some (JArray [])"
    by blast
  from list_fail_open [of "Some (Unparsable (ascii ''[1,''))" "ascii ''[1,''" JNull]
  have 2: "listed (fst (api_get (Some (Unparsable (ascii ''[1,''))))) = Some (JArray []) \<and>
           listed (fst (view_get (Some (Unparsable (ascii ''[1,''))))) = Some (JArray [])"
    by blast
  have f: "finite_value ?v" by simp
  note r = list_fail_open [of "Some (Serialised ?v)" "[]" ?v]
  from r have l: "listed (fst (api_get (Some (Serialised ?v)))) = Some (written ?v)"
    by blast
  from r f have "written ?v = ?v"
    by blast
  with l have 3: "listed (fst (api_get (Some (Serialised ?v)))) = Some ?v"
    by (simp only:)
  from 1 2 3 show ?thesis by blast
qed

text \<open>Stored content that is JSON but no array does not read as the empty sequence:
  a file holding \<open>{}\<close> lists as \<open>{}\<close>, and one holding \<open>null\<close> as \<open>null\<close>.\<close>

theorem list_non_array_counterexample:
  "listed (fst (api_get (Some (Serialised (JObject []))))) = Some (JObject []) \<and>
   listed (fst (api_get (Some (Serialised (JObject []))))) \<noteq> Some (JArray []) \<and>
   listed (fst (api_get (Some (Serialised JNull)))) \<noteq> Some (JArray [])"
  by (simp add: eval_defs)

text \<open>
  C10. \<open>list()\<close> writes nothing: in every state of the file, also with no file or
  with a text that is not JSON, either list route leaves the file as it is, and
  a second \<open>list()\<close> right after the first gives the same answer.
\<close>

theorem list_read_only:
  "snd (api_get fs) = fs \<and> snd (view_get fs) = fs \<and>
   api_get (snd (api_get fs)) = api_get fs \<and> view_get (snd (view_get fs)) = view_get fs"
  by (simp add: api_get_def view_get_def)

subsection \<open>Adding a task\<close>




text \<open>
  C6. When the request has a parsed body, either add route answers \<open>ValidationError\<close>
  exactly when the task value is falsy: absent, \<open>null\<close>, the empty text, and also
  \<open>false\<close> and \<open>0\<close>. Every absent or empty value is among these, so \<open>add("")\<close> and
  \<open>add(null)\<close> fail. When \<open>req.body\<close> is \<open>undefined\<close> or \<open>null\<close>, destructuring it throws
  a \<open>TypeError\<close> and the route answers no \<open>ValidationError\<close>. On each of these
  failures the file is as it was before the call.
\<close>

theorem add_ValidationError_iff:
  "(ValidationError (fst (api_post body fs)) \<longleftrightarrow>
      (\<exists>task. task_of_body body = Inr task \<and> \<not> ToBoolean task)) \<and>
   (ValidationError (fst (view_post body fs)) \<longleftrightarrow>
      (\<exists>task. task_of_body body = Inr task \<and> \<not> ToBoolean task)) \<and>
   (body = None \<or> body = Some JNull \<longrightarrow>
      api_post body fs = (Uncaught TypeError, fs) \<and>
      view_post body fs = (Uncaught TypeError, fs)) \<and>
   (\<forall>v. body = Some v \<and> v \<noteq> JNull \<longrightarrow> (\<exists>task. task_of_body body = Inr task)) \<and>
   (\<forall>task. absent_or_empty task \<longrightarrow> \<not> ToBoolean task) \<and>
   (ValidationError (fst (api_post body fs)) \<longrightarrow> snd (api_post body fs) = fs) \<and>
   (ValidationError (fst (view_post body fs)) \<longrightarrow> snd (view_post body fs) = fs)"
proof -
  let ?falsy = "\<exists>task. task_of_body body = Inr task \<and> \<not> ToBoolean task"
  have a: "(ValidationError (fst (api_post body fs)) \<longleftrightarrow> ?falsy) \<and>
           (ValidationError (fst (view_post body fs)) \<longleftrightarrow> ?falsy)"
  proof (cases "task_of_body body")
    case (Inl e)
    with api_post_throws [OF Inl, of fs] view_post_throws [OF Inl, of fs]
    show ?thesis by (simp add: ValidationError_def)
  next
    case (Inr task)
    show ?thesis
    proof (cases "ToBoolean task")
      case False
      with api_post_falsy [OF Inr False, of fs] view_post_falsy [OF Inr False, of fs] Inr
      show ?thesis by (simp add: ValidationError_def)
    next
      case True
      then obtain t where t: "task = Some t" "ToBoolean (Some t)"
        by (cases task) auto
      have "\<not> ValidationError (fst (api_post body fs))"
        using Inr t
        by (auto simp: api_post_def res_json_def ValidationError_def split: sum.splits)
      moreover have "\<not> ValidationError (fst (view_post body fs))"
        using Inr t by (auto simp: view_post_def ValidationError_def split: sum.splits)
      ultimately show ?thesis using Inr True by simp
    qed
  qed
  have b: "body = None \<or> body = Some JNull \<longrightarrow>
      api_post body fs = (Uncaught TypeError, fs) \<and>
      view_post body fs = (Uncaught TypeError, fs)"
    by (auto simp: api_post_def view_post_def)
  have c: "\<forall>v. body = Some v \<and> v \<noteq> JNull \<longrightarrow> (\<exists>task. task_of_body body = Inr task)"
    by (cases body rule: task_of_body.cases) auto
  have d: "\<forall>task. absent_or_empty task \<longrightarrow> \<not> ToBoolean task"
    by (auto simp: absent_or_empty_def)
  have e: "ValidationError (fst (api_post body fs)) \<longrightarrow> snd (api_post body fs) = fs"
    by (auto simp: api_post_def res_json_def ValidationError_def
        split: sum.splits option.splits)
  have f: "ValidationError (fst (view_post body fs)) \<longrightarrow> snd (view_post body fs) = fs"
    by (auto simp: view_post_def ValidationError_def split: sum.splits option.splits)
  from a b c d e f show ?thesis by (intro conjI) (elim conjE, assumption)+
qed

text \<open>An instance: \<open>add("")\<close>, \<open>add(null)\<close> and a body with no \<open>task\<close>, with \<open>["a"]\<close>
  stored, and a request with no parsed body.\<close>

theorem add_ValidationError_iff_witness:
  "absent_or_empty (Some (JString [])) \<and>
   ValidationError (fst (api_post (Some (JObject [(ascii ''task'', JString [])]))
      (Some (Serialised (JArray [JString (ascii ''a'')]))))) \<and>
   snd (api_post (Some (JObject [(ascii ''task'', JString [])]))
      (Some (Serialised (JArray [JString (ascii ''a'')]))))
     = Some (Serialised (JArray [JString (ascii ''a'')])) \<and>
   absent_or_empty (Some JNull) \<and>
   ValidationError (fst (view_post (Some (JObject [(ascii ''task'', JNull)]))
      (Some (Serialised (JArray [JString (ascii ''a'')]))))) \<and>
   snd (view_post (Some (JObject [(ascii ''task'', JNull)]))
      (Some (Serialised (JArray [JString (ascii ''a'')]))))
     = Some (Serialised (JArray [JString (ascii ''a'')])) \<and>
   absent_or_empty None \<and>
   ValidationError (fst (api_post (Some (JObject []))
      (Some (Serialised (JArray [JString (ascii ''a'')]))))) \<and>
   api_post None (Some (Serialised (JArray [JString (ascii ''a'')])))
     = (Uncaught TypeError, Some (Serialised (JArray [JString (ascii ''a'')])))"
proof -
  let ?fs = "Some (Serialised (JArray [JString (ascii ''a'')]))"
  let ?b1 = "Some (JObject [(ascii ''task'', JString [])])"
  let ?b2 = "Some (JObject [(ascii ''task'', JNull)])"
  let ?b3 = "Some (JObject [])"
  have e: "absent_or_empty (Some (JString []))" "absent_or_empty (Some JNull)"
    "absent_or_empty None"
    by (simp_all add: absent_or_empty_def)
  have t: "task_of_body ?b1 = Inr (Some (JString []))" "task_of_body ?b2 = Inr (Some JNull)"
    "task_of_body ?b3 = Inr None"
    by (simp_all add: get_prop_def)
  note r1 = add_ValidationError_iff [of ?b1 ?fs]
  from r1 e(1) have f1: "\<not> ToBoolean (Some (JString []))" by blast
  from r1 t(1) f1 have v1: "ValidationError (fst (api_post ?b1 ?fs))" by blast
  from r1 v1 have 1: "snd (api_post ?b1 ?fs) = ?fs" by blast
  note r2 = add_ValidationError_iff [of ?b2 ?fs]
  from r2 e(2) have f2: "\<not> ToBoolean (Some JNull)" by blast
  from r2 t(2) f2 have v2: "ValidationError (fst (view_post ?b2 ?fs))" by blast
  from r2 v2 have 2: "snd (view_post ?b2 ?fs) = ?fs" by blast
  note r3 = add_ValidationError_iff [of ?b3 ?fs]
  from r3 e(3) have f3: "\<not> ToBoolean None" by blast
  from r3 t(3) f3 have v3: "ValidationError (fst (api_post ?b3 ?fs))" by blast
  from add_ValidationError_iff [of None ?fs]
  have 4: "api_post None ?fs = (Uncaught TypeError, ?fs)" by blast
  from e v1 1 v2 2 v3 4 show ?thesis by blast
qed

text \<open>The failure is not confined to absent or empty values, and an absent task
  does not always give it: the task \<open>0\<close> is present and is not the empty text, and
  both add routes answer \<open>ValidationError\<close>; with no parsed body there is no task,
  and both add routes throw a \<open>TypeError\<close> instead.\<close>

theorem add_zero_counterexample:
  "\<not> absent_or_empty (Some (JNumber 0)) \<and>
   task_of_body (Some (JObject [(ascii ''task'', JNumber 0)])) = Inr (Some (JNumber 0)) \<and>
   ValidationError (fst (api_post (Some (JObject [(ascii ''task'', JNumber 0)])) None)) \<and>
   ValidationError (fst (view_post (Some (JObject [(ascii ''task'', JNumber 0)])) None)) \<and>
   api_post None None = (Uncaught TypeError, None) \<and>
   \<not> ValidationError (fst (api_post None None)) \<and>
   \<not> ValidationError (fst (view_post None None))"
  by (simp add: eval_defs)

text \<open>
  C9. A task value that is present is falsy exactly when it is \<open>0\<close>, \<open>false\<close>, \<open>null\<close>
  or the empty text, and both add routes refuse every such value with the same
  message, \<open>Task is required\<close>, under status 400, writing nothing.
\<close>

theorem add_rejects_falsy:
  assumes "body = Some (JObject ps)" "get_prop ps ''task'' = Some v"
  shows "(\<not> ToBoolean (Some v) \<longleftrightarrow> v \<in> {JNumber 0, JBool False, JNull, JString []}) \<and>
         (\<not> ToBoolean (Some v) \<longrightarrow>
            api_post body fs =
              (Json_response 400
                 (JObject [(ascii ''error'', JString (ascii ''Task is required''))]), fs) \<and>
            view_post body fs = (Text_response 400 (ascii ''Task is required''), fs))"
proof -
  from assms have b: "task_of_body body = Inr (Some v)" by simp
  have "\<not> ToBoolean (Some v) \<longleftrightarrow> v \<in> {JNumber 0, JBool False, JNull, JString []}"
    by (cases v) auto
  moreover have "api_post body fs =
      (Json_response 400 (JObject [(ascii ''error'', JString (ascii ''Task is required''))]), fs) \<and>
      view_post body fs = (Text_response 400 (ascii ''Task is required''), fs)"
    if "\<not> ToBoolean (Some v)"
    using api_post_falsy [OF b that, of fs] view_post_falsy [OF b that, of fs] by simp
  ultimately show ?thesis by blast
qed

text \<open>An instance: the tasks \<open>0\<close> and \<open>false\<close>, with \<open>["a"]\<close> stored.\<close>

theorem add_rejects_falsy_witness:
  "get_prop [(ascii ''task'', JNumber 0)] ''task'' = Some (JNumber 0) \<and>
   \<not> ToBoolean (Some (JNumber 0)) \<and>
   api_post (Some (JObject [(ascii ''task'', JNumber 0)]))
      (Some (Serialised (JArray [JString (ascii ''a'')]))) =
     (Json_response 400 (JObject [(ascii ''error'', JString (ascii ''Task is required''))]),
      Some (Serialised (JArray [JString (ascii ''a'')]))) \<and>
   get_prop [(ascii ''task'', JBool False)] ''task'' = Some (JBool False) \<and>
   \<not> ToBoolean (Some (JBool False)) \<and>
   view_post (Some (JObject [(ascii ''task'', JBool False)]))
      (Some (Serialised (JArray [JString (ascii ''a'')]))) =
     (Text_response 400 (ascii ''Task is required''),
      Some (Serialised (JArray [JString (ascii ''a'')])))"
proof -
  let ?fs = "Some (Serialised (JArray [JString (ascii ''a'')]))"
  have 1: "get_prop [(ascii ''task'', JNumber 0)] ''task'' = Some (JNumber 0)"
    by (simp add: get_prop_def)
  have 2: "\<not> ToBoolean (Some (JNumber 0))" by simp
  have 3: "get_prop [(ascii ''task'', JBool False)] ''task'' = Some (JBool False)"
    by (simp add: get_prop_def)
  have 4: "\<not> ToBoolean (Some (JBool False))" by simp
  from add_rejects_falsy [OF refl 1, of ?fs] 2
  have a: "api_post (Some (JObject [(ascii ''task'', JNumber 0)])) ?fs =
     (Json_response 400 (JObject [(ascii ''error'', JString (ascii ''Task is required''))]), ?fs)"
    by blast
  from add_rejects_falsy [OF refl 3, of ?fs] 4
  have b: "view_post (Some (JObject [(ascii ''task'', JBool False)])) ?fs =
     (Text_response 400 (ascii ''Task is required''), ?fs)"
    by blast
  from 1 2 3 4 a b show ?thesis by blast
qed

subsection \<open>A run of calls\<close>

text \<open>
  C8. From no file, through the JSON router: \<open>add("Buy milk")\<close>, then \<open>list()\<close> is
  \<open>["Buy milk"]\<close>; \<open>add("Walk dog")\<close>, then \<open>list()\<close> is \<open>["Buy milk", "Walk dog"]\<close>;
  \<open>removeAt(0)\<close> answers \<open>deletedTask: ["Buy milk"]\<close>, then \<open>list()\<close> is \<open>["Walk dog"]\<close>;
  \<open>removeAt(5)\<close> answers \<open>IndexError\<close>, and \<open>list()\<close> is still \<open>["Walk dog"]\<close>.
\<close>

theorem scenario:
  "(let buy = JString (ascii ''Buy milk''); walk = JString (ascii ''Walk dog'');
        (r1, fs1) = api_post (Some (JObject [(ascii ''task'', buy)])) None;
        (l1, fs2) = api_get fs1;
        (r2, fs3) = api_post (Some (JObject [(ascii ''task'', walk)])) fs2;
        (l2, fs4) = api_get fs3;
        (r3, fs5) = api_delete (ascii ''0'') fs4;
        (l3, fs6) = api_get fs5;
        (r4, fs7) = api_delete (ascii ''5'') fs6;
        (l4, fs8) = api_get fs7
    in listed l1 = Some (JArray [buy]) \<and>
       listed l2 = Some (JArray [buy, walk]) \<and>
       body_field ''deletedTask'' r3 = Some (JArray [buy]) \<and>
       listed l3 = Some (JArray [walk]) \<and>
       IndexError r4 \<and>
       listed l4 = Some (JArray [walk]))"
  by (simp add: eval_defs)

text \<open>In that run \<open>removeAt(0)\<close> does not answer the bare text \<open>"Buy milk"\<close>.\<close>

theorem scenario_removed_counterexample:
  "body_field ''deletedTask''
     (fst (api_delete (ascii ''0'')
        (snd (api_get (snd (api_post (Some (JObject [(ascii ''task'', JString (ascii ''Walk dog''))]))
          (snd (api_get (snd (api_post (Some (JObject [(ascii ''task'', JString (ascii ''Buy milk''))]))
            None))))))))))
   \<noteq> Some (JString (ascii ''Buy milk''))"
  by (simp add: eval_defs)

end
